theory Spec2Isabelle
  imports Complex_Main
begin

section \<open>Numbers\<close>

text \<open>
  The series of the program hold Python floats. Finite samples are idealised as
  \<^typ>\<open>real\<close>: rounding and NaN are outside the model. The one place where the source
  uses a non-finite float is the lower bound \<^verbatim>\<open>float('-inf')\<close> of
  \<^verbatim>\<open>calculate_zero_feed\<close>; for it the reals are extended by the two infinities, with
  the order Python's comparison gives them.
\<close>

datatype pyfloat = NegInf | Fin real | PosInf

instantiation pyfloat :: linorder
begin

fun less_eq_pyfloat :: "pyfloat \<Rightarrow> pyfloat \<Rightarrow> bool" where
  "less_eq_pyfloat NegInf _ = True"
| "less_eq_pyfloat (Fin a) NegInf = False"
| "less_eq_pyfloat (Fin a) (Fin b) = (a \<le> b)"
| "less_eq_pyfloat (Fin a) PosInf = True"
| "less_eq_pyfloat PosInf PosInf = True"
| "less_eq_pyfloat PosInf _ = False"

definition less_pyfloat :: "pyfloat \<Rightarrow> pyfloat \<Rightarrow> bool" where
  "less_pyfloat x y = (x \<le> y \<and> \<not> y \<le> x)"

instance
proof
  fix x y z :: pyfloat
  show "(x < y) = (x \<le> y \<and> \<not> y \<le> x)"
    by (simp add: less_pyfloat_def)
  show "x \<le> x"
    by (cases x) simp_all
  show "x \<le> y \<Longrightarrow> y \<le> z \<Longrightarrow> x \<le> z"
    by (cases x; cases y; cases z) simp_all
  show "x \<le> y \<Longrightarrow> y \<le> x \<Longrightarrow> x = y"
    by (cases x; cases y) simp_all
  show "x \<le> y \<or> y \<le> x"
    by (cases x; cases y) auto
qed

end

text \<open>
  Python's two-argument \<^verbatim>\<open>max(a, b)\<close> keeps \<open>a\<close> unless \<open>b > a\<close>, and
  \<^verbatim>\<open>min(a, b)\<close> keeps \<open>a\<close> unless \<open>b < a\<close>.
\<close>

definition py_max :: "'a::linorder \<Rightarrow> 'a \<Rightarrow> 'a" where
  "py_max a b = (if a < b then b else a)"

definition py_min :: "'a::linorder \<Rightarrow> 'a \<Rightarrow> 'a" where
  "py_min a b = (if b < a then b else a)"

text \<open>\<^verbatim>\<open>def clamp(n, min_val, max_val): return max(min(max_val, n), min_val)\<close>\<close>

definition clamp :: "'a::linorder \<Rightarrow> 'a \<Rightarrow> 'a \<Rightarrow> 'a" where
  "clamp n min_val max_val = py_max (py_min max_val n) min_val"

section \<open>The system object\<close>

text \<open>
  Errors the source raises: the explicit \<^verbatim>\<open>raise Exception(...)\<close> of \<^verbatim>\<open>run_model\<close>,
  the \<^verbatim>\<open>AttributeError\<close> of reading an attribute that was never assigned, and the
  \<^verbatim>\<open>TypeError\<close> of iterating over \<^verbatim>\<open>None\<close>.
\<close>

datatype error = Exception string | AttributeError string | TypeError string

text \<open>An attribute of the object that \<^verbatim>\<open>__init__\<close> may have left unassigned.\<close>

datatype 'a attr = Unset | Attr 'a

text \<open>
  The photovoltaic library is an external collaborator. Its three entry points used by
  the source are parameters of the model: \<^verbatim>\<open>location.get_clearsky(times)\<close>, and the
  \<^verbatim>\<open>results.dc\<close> and \<^verbatim>\<open>results.ac\<close> series (in watts) that \<^verbatim>\<open>model.run_model(weather)\<close>
  leaves behind.
\<close>

record ('t, 'w) pv_engine =
  get_clearsky :: "'t \<Rightarrow> 'w"
  results_dc :: "'w \<Rightarrow> real list"
  results_ac :: "'w \<Rightarrow> real list"

text \<open>
  The fields of \<^verbatim>\<open>SimpleSystem\<close>. \<^verbatim>\<open>None\<close> is \<open>None\<close>. The attribute
  \<^verbatim>\<open>ac_production\<close> is not assigned by \<^verbatim>\<open>__init__\<close>; \<^verbatim>\<open>run_model\<close> creates it.
  The field \<^verbatim>\<open>times\<close> is named \<open>times_idx\<close> here.
\<close>

record ('t, 'w) SimpleSystem =
  consumption :: "real list"
  times_idx :: 't
  weather :: "'w option"
  dc_output :: "real list option"
  dc_output_kw :: "real list option"
  ac_output :: "real list option"
  ac_output_kw :: "real list option"
  net_energy_produced :: "real list option"
  ac_production :: "real list option attr"
  timestep :: real
  dirty :: bool

text \<open>
  \<^verbatim>\<open>__init__\<close>; \<open>freq_nanos\<close> stands for \<^verbatim>\<open>self.times.freq.nanos\<close>.
\<close>

definition init :: "real list \<Rightarrow> 't \<Rightarrow> real \<Rightarrow> ('t, 'w) SimpleSystem" where
  "init consumption0 times0 freq_nanos =
     \<lparr>consumption = consumption0, times_idx = times0, weather = None,
      dc_output = None, dc_output_kw = None, ac_output = None, ac_output_kw = None,
      net_energy_produced = None, ac_production = Unset,
      timestep = freq_nanos / 3600000000000, dirty = True\<rparr>"

definition update_weather ::
  "('t, 'w) pv_engine \<Rightarrow> ('t, 'w) SimpleSystem \<Rightarrow> ('t, 'w) SimpleSystem" where
  "update_weather pv s = s\<lparr>weather := Some (get_clearsky pv (times_idx s)), dirty := True\<rparr>"

text \<open>
  \<^verbatim>\<open>calculate_ac_production\<close>: the loop over \<^verbatim>\<open>enumerate(ac_output)\<close> appends one
  trapezoid for every index but the first, then \<^verbatim>\<open>production.insert(0, 0.0)\<close>.
\<close>

definition calculate_ac_production :: "('t, 'w) SimpleSystem \<Rightarrow> real list \<Rightarrow> real list" where
  "calculate_ac_production s ac_output0 =
     (let production =
        foldl (\<lambda>production i.
                 if i \<noteq> 0
                 then production @ [(1 * timestep s) * (1 / 2) * (ac_output0 ! i + ac_output0 ! (i - 1))]
                 else production)
          [] [0..<length ac_output0]
      in 0 # production)"

definition run_model ::
  "('t, 'w) pv_engine \<Rightarrow> ('t, 'w) SimpleSystem \<Rightarrow> error + ('t, 'w) SimpleSystem" where
  "run_model pv s =
     (case weather s of
        None \<Rightarrow> Inl (Exception ''the system needs weather data.'')
      | Some w \<Rightarrow>
          (let dc = results_dc pv w;
               dc_kw = map (\<lambda>dc. dc / 1000) dc;
               ac = results_ac pv w;
               ac_kw = map (\<lambda>ac. ac / 1000) ac;
               production = calculate_ac_production s ac_kw;
               net = map (\<lambda>(produced, consumed). produced - consumed)
                       (zip production (consumption s))
           in Inr (s\<lparr>dc_output := Some dc, dc_output_kw := Some dc_kw,
                      ac_output := Some ac, ac_output_kw := Some ac_kw,
                      ac_production := Attr (Some production),
                      net_energy_produced := Some net,
                      dirty := False\<rparr>)))"

text \<open>
  The getters return the field they guard, together with the object as the call leaves
  it. Each looks at its own field only; none reads \<^verbatim>\<open>dirty\<close>.
\<close>

definition get_ac_output ::
  "('t, 'w) pv_engine \<Rightarrow> ('t, 'w) SimpleSystem \<Rightarrow>
     error + (real list option \<times> ('t, 'w) SimpleSystem)" where
  "get_ac_output pv s =
     (if ac_output_kw s = None
      then (case run_model pv s of Inl e \<Rightarrow> Inl e | Inr s' \<Rightarrow> Inr (ac_output_kw s', s'))
      else Inr (ac_output_kw s, s))"

definition get_dc_output ::
  "('t, 'w) pv_engine \<Rightarrow> ('t, 'w) SimpleSystem \<Rightarrow>
     error + (real list option \<times> ('t, 'w) SimpleSystem)" where
  "get_dc_output pv s =
     (if dc_output_kw s = None
      then (case run_model pv s of Inl e \<Rightarrow> Inl e | Inr s' \<Rightarrow> Inr (dc_output_kw s', s'))
      else Inr (dc_output_kw s, s))"

definition get_net_energy_produced ::
  "('t, 'w) pv_engine \<Rightarrow> ('t, 'w) SimpleSystem \<Rightarrow>
     error + (real list option \<times> ('t, 'w) SimpleSystem)" where
  "get_net_energy_produced pv s =
     (if net_energy_produced s = None
      then (case run_model pv s of
              Inl e \<Rightarrow> Inl e | Inr s' \<Rightarrow> Inr (net_energy_produced s', s'))
      else Inr (net_energy_produced s, s))"

text \<open>Reading \<^verbatim>\<open>self.ac_production\<close>: an unassigned attribute raises.\<close>

definition read_ac_production :: "('t, 'w) SimpleSystem \<Rightarrow> error + real list option" where
  "read_ac_production s =
     (case ac_production s of
        Unset \<Rightarrow> Inl (AttributeError ''ac_production'')
      | Attr v \<Rightarrow> Inr v)"

definition get_ac_production ::
  "('t, 'w) pv_engine \<Rightarrow> ('t, 'w) SimpleSystem \<Rightarrow>
     error + (real list option \<times> ('t, 'w) SimpleSystem)" where
  "get_ac_production pv s =
     (case read_ac_production s of
        Inl e \<Rightarrow> Inl e
      | Inr None \<Rightarrow>
          (case run_model pv s of
             Inl e \<Rightarrow> Inl e
           | Inr s' \<Rightarrow>
               (case read_ac_production s' of Inl e \<Rightarrow> Inl e | Inr v \<Rightarrow> Inr (v, s')))
      | Inr (Some p) \<Rightarrow> Inr (Some p, s))"

text \<open>
  \<^verbatim>\<open>calculate_zero_feed\<close>: the lower bound is \<^verbatim>\<open>float('-inf')\<close>, so \<open>clamp\<close> is
  used on the extended numbers and the result is a list of those.
\<close>

definition calculate_zero_feed ::
  "('t, 'w) pv_engine \<Rightarrow> ('t, 'w) SimpleSystem \<Rightarrow>
     error + (pyfloat list \<times> ('t, 'w) SimpleSystem)" where
  "calculate_zero_feed pv s =
     (case (if net_energy_produced s = None then run_model pv s else Inr s) of
        Inl e \<Rightarrow> Inl e
      | Inr s' \<Rightarrow>
          (case net_energy_produced s' of
             None \<Rightarrow> Inl (TypeError ''NoneType is not iterable'')
           | Some net \<Rightarrow>
               Inr (map (\<lambda>production. clamp (Fin production) NegInf (Fin 0)) net, s')))"

text \<open>
  \<^verbatim>\<open>calculate_battery_levels\<close>: the loop over \<^verbatim>\<open>enumerate(self.net_energy_produced)\<close>
  reads the previous level from the list it is building. Neither argument is checked.
\<close>

definition calculate_battery_levels ::
  "('t, 'w) SimpleSystem \<Rightarrow> real \<Rightarrow> real \<Rightarrow> error + real list" where
  "calculate_battery_levels s initial_soc capacity_kwh =
     (let starting_energy = capacity_kwh * initial_soc
      in case net_energy_produced s of
           None \<Rightarrow> Inl (TypeError ''NoneType is not iterable'')
         | Some net \<Rightarrow>
             Inr (foldl (\<lambda>remaining_energy i.
                           let new_energy =
                                 (if i = 0 then starting_energy + net ! i
                                  else remaining_energy ! (i - 1) + net ! i)
                           in remaining_energy @ [clamp new_energy 0 capacity_kwh])
                    [] [0..<length net]))"

text \<open>\<^verbatim>\<open>total_energy\<close> (it does not use \<^verbatim>\<open>self\<close>).\<close>

definition total_energy :: "real list \<Rightarrow> real \<Rightarrow> real" where
  "total_energy vals timestep0 =
     foldl (\<lambda>total i.
              if i \<noteq> 0
              then total + (1 * timestep0) * (1 / 2) * (vals ! i + vals ! (i - 1))
              else total)
       0 [0..<length vals]"

section \<open>The report script\<close>

text \<open>Python's \<^verbatim>\<open>sum\<close> adds from the left, starting at 0.\<close>

definition py_sum :: "real list \<Rightarrow> real" where
  "py_sum xs = foldl (+) 0 xs"

text \<open>
  \<^verbatim>\<open>costs = [electric_cost * -1 * consumption for consumption in zero_feed]\<close>, and the
  figure of the row "Total Net Cost Per Day", \<^verbatim>\<open>sum(costs)\<close>. The zero-feed samples
  are finite, so they are reals here.
\<close>

definition costs :: "real \<Rightarrow> real list \<Rightarrow> real list" where
  "costs electric_cost zero_feed = map (\<lambda>consumption. electric_cost * -1 * consumption) zero_feed"

definition total_net_cost_per_day :: "real \<Rightarrow> real list \<Rightarrow> real" where
  "total_net_cost_per_day electric_cost zero_feed = py_sum (costs electric_cost zero_feed)"

section \<open>A concrete engine\<close>

text \<open>
  For the evaluations on concrete inputs, an engine over lists of numbers: the clear-sky
  weather of a time index is the index itself, the DC series in watts is 1200 times
  the weather and the AC series 1000 times the weather.
\<close>

definition sample_engine :: "(real list, real list) pv_engine" where
  "sample_engine =
     \<lparr>get_clearsky = (\<lambda>times0. times0),
      results_dc = map (\<lambda>x. 1200 * x),
      results_ac = map (\<lambda>x. 1000 * x)\<rparr>"

section \<open>The recurrences of the specification\<close>

text \<open>
  The battery trajectory as the specification words it: the first level is the clamped
  sum of \<open>initial_soc_fraction * capacity_kwh\<close> and the first net sample, every later
  level the clamped sum of the previous level and that index's net sample.
\<close>

fun soc_kwh :: "real \<Rightarrow> real \<Rightarrow> real list \<Rightarrow> nat \<Rightarrow> real" where
  "soc_kwh initial_soc_fraction capacity_kwh net 0 =
     clamp (initial_soc_fraction * capacity_kwh + net ! 0) 0 capacity_kwh"
| "soc_kwh initial_soc_fraction capacity_kwh net (Suc i) =
     clamp (soc_kwh initial_soc_fraction capacity_kwh net i + net ! Suc i) 0 capacity_kwh"

section \<open>The loops as maps over the indices\<close>

lemma foldl_append_indices:
  "foldl (\<lambda>acc i. if i \<noteq> 0 then acc @ [f i] else acc) [] [0..<n] = map f [Suc 0..<n]"
proof (induction n)
  case 0
  show ?case by simp
next
  case (Suc n)
  show ?case
  proof (cases n)
    case 0
    then show ?thesis by simp
  next
    case (Suc m)
    with Suc.IH show ?thesis by simp
  qed
qed

lemma foldl_add_indices:
  "foldl (\<lambda>total i. if i \<noteq> 0 then total + f i else total) (0::real) [0..<n] =
     sum_list (map f [Suc 0..<n])"
proof (induction n)
  case 0
  show ?case by simp
next
  case (Suc n)
  show ?case
  proof (cases n)
    case 0
    then show ?thesis by simp
  next
    case (Suc m)
    with Suc.IH show ?thesis by simp
  qed
qed

text \<open>
  At index \<open>i\<close> the list under construction has \<open>i\<close> elements, so the read of
  \<^verbatim>\<open>remaining_energy[i - 1]\<close> is the level appended one step earlier.
\<close>

lemma battery_loop:
  "foldl (\<lambda>remaining_energy i.
            let new_energy =
                  (if i = 0 then C * f + net ! i else remaining_energy ! (i - 1) + net ! i)
            in remaining_energy @ [clamp new_energy 0 C])
     [] [0..<n]
   = map (soc_kwh f C net) [0..<n]"
  (is "foldl ?g [] [0..<n] = map ?soc [0..<n]")
proof (induction n)
  case 0
  show ?case by simp
next
  case (Suc n)
  have "foldl ?g [] [0..<Suc n] = ?g (foldl ?g [] [0..<n]) n"
    by simp
  also have "\<dots> = ?g (map ?soc [0..<n]) n"
    by (simp only: Suc.IH)
  also have "\<dots> = map ?soc [0..<n] @ [?soc n]"
    by (cases n) (simp_all add: Let_def nth_append mult.commute)
  also have "\<dots> = map ?soc [0..<Suc n]"
    by simp
  finally show ?case .
qed

lemma calculate_ac_production_eq:
  "calculate_ac_production s p =
     0 # map (\<lambda>i. timestep s * 0.5 * (p ! i + p ! (i - 1))) [Suc 0..<length p]"
  by (simp only: calculate_ac_production_def Let_def foldl_append_indices) simp

lemma total_energy_eq:
  "total_energy v dt =
     sum_list (map (\<lambda>i. dt * 0.5 * (v ! (i - 1) + v ! i)) [Suc 0..<length v])"
  by (simp only: total_energy_def foldl_add_indices) (simp add: add.commute)

lemma battery_levels_eq:
  "net_energy_produced s = Some net \<Longrightarrow>
   calculate_battery_levels s f C = Inr (map (soc_kwh f C net) [0..<length net])"
  using battery_loop [of C f net "length net"]
  by (simp add: calculate_battery_levels_def)

lemma soc_kwh_bounds: "0 \<le> C \<Longrightarrow> 0 \<le> soc_kwh f C net i \<and> soc_kwh f C net i \<le> C"
  by (cases i) (auto simp: clamp_def py_max_def py_min_def)

lemma less_pyfloat_simps:
  "Fin a < Fin b \<longleftrightarrow> a < b" "NegInf < Fin a" "\<not> Fin a < NegInf" "\<not> NegInf < NegInf"
  by (auto simp: less_pyfloat_def)

lemma clamp_zero_feed: "clamp (Fin x) NegInf (Fin 0) = (if 0 < x then Fin 0 else Fin x)"
  by (simp add: clamp_def py_max_def py_min_def less_pyfloat_simps)

section \<open>Properties of clamp\<close>

lemma clamp_max_min: "clamp n lo hi = max (min hi n) lo"
  by (auto simp: clamp_def py_max_def py_min_def max_def min_def)

text \<open>
  C10: for every value \<open>n\<close> and all inverted bounds (\<open>lower > upper\<close>), \<open>clamp\<close> returns
  the lower bound. \<open>clamp\<close> is a total function without an error result: no call raises.
\<close>

theorem clamp_inverted_bounds:
  fixes n lower upper :: "'a::linorder"
  assumes "upper < lower"
  shows "clamp n lower upper = lower"
  using assms by (auto simp: clamp_def py_max_def py_min_def)

theorem clamp_inverted_bounds_witness:
  "(2::real) < 5 \<and> clamp (3::real) 5 2 = 5 \<and> clamp (7::real) 5 2 = 5 \<and> clamp (0::real) 5 2 = 5"
  using clamp_inverted_bounds [of "2::real" 5 3] clamp_inverted_bounds [of "2::real" 5 7]
    clamp_inverted_bounds [of "2::real" 5 0]
  by simp

section \<open>The battery simulator\<close>

text \<open>
  C1: for every net-energy series of length at least 1, every \<open>capacity_kwh > 0\<close> and
  every \<open>initial_soc_fraction\<close> in \<open>[0, 1]\<close>, \<open>calculate_battery_levels\<close> returns the
  trajectory of the recurrence: its first level is
  \<open>clamp (initial_soc_fraction * capacity_kwh + net[0]) 0 capacity_kwh\<close>, and every later
  level is \<open>clamp (soc[i - 1] + net[i]) 0 capacity_kwh\<close>. In particular, for the series
  \<open>[-1, -2, 3, -1]\<close>, capacity 5 and fraction 0.5 it returns \<open>[1.5, 0, 3, 2]\<close>.
\<close>

theorem battery_levels_recurrence:
  assumes "net_energy_produced s = Some net" and "1 \<le> length net"
    and "0 < capacity_kwh" and "0 \<le> initial_soc_fraction" and "initial_soc_fraction \<le> 1"
  shows "\<exists>soc. calculate_battery_levels s initial_soc_fraction capacity_kwh = Inr soc \<and>
           length soc = length net \<and>
           soc ! 0 = clamp (initial_soc_fraction * capacity_kwh + net ! 0) 0 capacity_kwh \<and>
           (\<forall>i. 0 < i \<and> i < length net \<longrightarrow>
                  soc ! i = clamp (soc ! (i - 1) + net ! i) 0 capacity_kwh) \<and>
           (net = [-1, -2, 3, -1] \<and> capacity_kwh = 5 \<and> initial_soc_fraction = 1 / 2 \<longrightarrow>
              soc = [3 / 2, 0, 3, 2])"
proof -
  let ?soc = "map (soc_kwh initial_soc_fraction capacity_kwh net) [0..<length net]"
  have run: "calculate_battery_levels s initial_soc_fraction capacity_kwh = Inr ?soc"
    using assms(1) by (rule battery_levels_eq)
  have pos: "0 < length net"
    using assms(2) by (cases net) simp_all
  have first: "?soc ! 0 = clamp (initial_soc_fraction * capacity_kwh + net ! 0) 0 capacity_kwh"
    using pos by simp
  have later: "?soc ! i = clamp (?soc ! (i - 1) + net ! i) 0 capacity_kwh"
    if "0 < i" "i < length net" for i
  proof -
    from that obtain j where j: "i = Suc j" by (cases i) auto
    with that show ?thesis by simp
  qed
  have example: "?soc = [3 / 2, 0, 3, 2]"
    if "net = [-1, -2, 3, -1]" "capacity_kwh = 5" "initial_soc_fraction = 1 / 2"
    using that by (simp add: upt_rec eval_nat_numeral clamp_def py_max_def py_min_def)
  show ?thesis
  proof (intro exI [of _ ?soc] conjI allI impI)
    show "calculate_battery_levels s initial_soc_fraction capacity_kwh = Inr ?soc"
      by (rule run)
    show "length ?soc = length net"
      by simp
    show "?soc ! 0 = clamp (initial_soc_fraction * capacity_kwh + net ! 0) 0 capacity_kwh"
      by (rule first)
    show "?soc ! i = clamp (?soc ! (i - 1) + net ! i) 0 capacity_kwh"
      if "0 < i \<and> i < length net" for i
      using that later by blast
    show "?soc = [3 / 2, 0, 3, 2]"
      if "net = [-1, -2, 3, -1] \<and> capacity_kwh = 5 \<and> initial_soc_fraction = 1 / 2"
      using that example by blast
  qed
qed

theorem battery_levels_recurrence_witness:
  "1 \<le> length [-1, -2, 3, -1 :: real] \<and> (0 :: real) < 5 \<and> (0 :: real) \<le> 1 / 2 \<and>
   (1 / 2 :: real) \<le> 1 \<and>
   calculate_battery_levels
     ((init [] [] 3600000000000 :: (real list, real list) SimpleSystem)
        \<lparr>net_energy_produced := Some [-1, -2, 3, -1]\<rparr>)
     (1 / 2) 5 = Inr [3 / 2, 0, 3, 2]"
proof -
  let ?s = "(init [] [] 3600000000000 :: (real list, real list) SimpleSystem)
              \<lparr>net_energy_produced := Some [-1, -2, 3, -1]\<rparr>"
  have "net_energy_produced ?s = Some [-1, -2, 3, -1]"
    by simp
  from battery_levels_recurrence [OF this, of 5 "1 / 2"]
  show ?thesis
    by auto
qed

text \<open>
  C2: for every capacity \<open>C > 0\<close>, every \<open>initial_soc_fraction\<close> in \<open>[0, 1]\<close> and every
  net-energy series, \<open>calculate_battery_levels\<close> returns a trajectory with one level per
  net sample, and every level lies between 0 and \<open>C\<close>.
\<close>

theorem battery_levels_bounded:
  assumes "net_energy_produced s = Some net"
    and "0 < C" and "0 \<le> initial_soc_fraction" and "initial_soc_fraction \<le> 1"
  shows "\<exists>soc. calculate_battery_levels s initial_soc_fraction C = Inr soc \<and>
           length soc = length net \<and>
           (\<forall>i<length soc. 0 \<le> soc ! i \<and> soc ! i \<le> C)"
proof -
  let ?soc = "map (soc_kwh initial_soc_fraction C net) [0..<length net]"
  have "calculate_battery_levels s initial_soc_fraction C = Inr ?soc"
    using assms(1) by (rule battery_levels_eq)
  moreover have "0 \<le> ?soc ! i \<and> ?soc ! i \<le> C" if "i < length ?soc" for i
    using that assms(2) soc_kwh_bounds [of C initial_soc_fraction net i] by simp
  ultimately show ?thesis
    by (intro exI [of _ ?soc]) simp
qed

theorem battery_levels_bounded_witness:
  "(0 :: real) < 5 \<and> (0 :: real) \<le> 1 / 2 \<and> (1 / 2 :: real) \<le> 1 \<and>
   (\<exists>soc. calculate_battery_levels
       ((init [] [] 3600000000000 :: (real list, real list) SimpleSystem)\<lparr>net_energy_produced := Some [9, -20]\<rparr>)
       (1 / 2) 5 = Inr soc \<and>
     length soc = 2 \<and> 0 \<le> soc ! 0 \<and> soc ! 0 \<le> 5 \<and> 0 \<le> soc ! 1 \<and> soc ! 1 \<le> 5)"
proof -
  let ?s = "(init [] [] 3600000000000 :: (real list, real list) SimpleSystem)\<lparr>net_energy_produced := Some [9, -20]\<rparr>"
  have "net_energy_produced ?s = Some [9, -20]" by simp
  from battery_levels_bounded [OF this, of 5 "1 / 2"]
  obtain soc where soc: "calculate_battery_levels ?s (1 / 2) 5 = Inr soc"
    "length soc = 2" "\<forall>i<length soc. 0 \<le> soc ! i \<and> soc ! i \<le> 5"
    by auto
  from soc(2,3) have "0 \<le> soc ! 0 \<and> soc ! 0 \<le> 5" "0 \<le> soc ! 1 \<and> soc ! 1 \<le> 5"
    by simp_all
  with soc(1,2) show ?thesis by simp
qed

section \<open>Energy per interval and total energy\<close>

text \<open>
  C3: for every power series of length at least 1 and every time step, the series of
  \<open>calculate_ac_production\<close> has the length of the power series, its element 0 is 0
  whatever the first power sample is, and its element \<open>i > 0\<close> is
  \<open>timestep * 0.5 * (power[i] + power[i - 1])\<close>.
\<close>

theorem ac_production_series:
  assumes "1 \<le> length pw"
  shows "length (calculate_ac_production s pw) = length pw \<and>
         calculate_ac_production s pw ! 0 = 0 \<and>
         (\<forall>i. 0 < i \<and> i < length pw \<longrightarrow>
            calculate_ac_production s pw ! i =
              timestep s * 0.5 * (pw ! i + pw ! (i - 1)))"
proof (intro conjI allI impI)
  show "length (calculate_ac_production s pw) = length pw"
    using assms by (simp add: calculate_ac_production_eq)
  show "calculate_ac_production s pw ! 0 = 0"
    by (simp add: calculate_ac_production_eq)
  show "calculate_ac_production s pw ! i = timestep s * 0.5 * (pw ! i + pw ! (i - 1))"
    if "0 < i \<and> i < length pw" for i
  proof -
    from that obtain j where j: "i = Suc j" by (cases i) auto
    with that show ?thesis by (simp add: calculate_ac_production_eq)
  qed
qed

theorem ac_production_series_witness:
  "1 \<le> length [7, 2, 4 :: real] \<and>
   calculate_ac_production ((init [] [] 7200000000000 :: (real list, real list) SimpleSystem)) [7, 2, 4] = [0, 9, 6]"
proof -
  let ?s = "init [] [] 7200000000000 :: (real list, real list) SimpleSystem"
  let ?p = "calculate_ac_production ?s [7, 2, 4]"
  have ts: "timestep ?s = 2" by (simp add: init_def)
  have h: "1 \<le> length [7, 2, 4 :: real]" by simp
  from ac_production_series [OF h, of ?s]
  have len: "length ?p = 3" and p0: "?p ! 0 = 0"
    and rest: "\<forall>i. 0 < i \<and> i < 3 \<longrightarrow> ?p ! i = timestep ?s * 0.5 * ([7, 2, 4] ! i + [7, 2, 4] ! (i - 1))"
    by simp_all
  from rest ts have "?p ! 1 = 9" "?p ! 2 = 6"
    by (simp_all add: eval_nat_numeral)
  with len p0 have "?p = [0, 9, 6]"
    by (auto simp: list_eq_iff_nth_eq less_Suc_eq eval_nat_numeral)
  then show ?thesis by simp
qed

text \<open>
  C4: for every sequence of values and every \<open>dt\<close>, \<open>total_energy\<close> returns the sum,
  over the consecutive pairs \<open>(v[i - 1], v[i])\<close>, of \<open>dt * 0.5 * (v[i - 1] + v[i])\<close>; for
  a sequence of length 0 or 1 it returns 0.
\<close>

theorem total_energy_trapezoidal:
  "total_energy v dt = (\<Sum>i = 1..<length v. dt * 0.5 * (v ! (i - 1) + v ! i)) \<and>
   (length v \<le> 1 \<longrightarrow> total_energy v dt = 0)"
proof -
  have "total_energy v dt = (\<Sum>i = 1..<length v. dt * 0.5 * (v ! (i - 1) + v ! i))"
    by (simp add: total_energy_eq interv_sum_list_conv_sum_set_nat)
  then show ?thesis by simp
qed

theorem total_energy_trapezoidal_witness:
  "total_energy [0, 2, 4, 2, 0] 1 = 8 \<and> total_energy [] 3 = 0 \<and> total_energy [5] 3 = 0"
proof -
  let ?v = "[0, 2, 4, 2, 0 :: real]"
  have "total_energy ?v 1 = (\<Sum>i = 1..<length ?v. 1 * 0.5 * (?v ! (i - 1) + ?v ! i))"
    by (rule conjunct1 [OF total_energy_trapezoidal])
  also have "\<dots> = 8"
    by (simp add: eval_nat_numeral)
  finally have "total_energy ?v 1 = 8" .
  moreover have "total_energy [] 3 = 0" "total_energy [5] 3 = 0"
    using total_energy_trapezoidal [of "[]" 3] total_energy_trapezoidal [of "[5]" 3] by simp_all
  ultimately show ?thesis by simp
qed

section \<open>Zero feed\<close>

text \<open>
  C5: for every net-energy series, \<open>calculate_zero_feed\<close> returns the series obtained by
  mapping each sample \<open>x\<close> to \<open>clamp(x, -infinity, 0)\<close>, which turns every positive sample
  into 0 and leaves every sample \<open>\<le> 0\<close> unchanged; the object is left as it was. In
  particular \<open>[-3, 2, -1]\<close> is mapped to \<open>[-3, 0, -1]\<close>.
\<close>

theorem zero_feed_series:
  assumes "net_energy_produced s = Some net"
  shows "calculate_zero_feed pv s =
           Inr (map (\<lambda>x. clamp (Fin x) NegInf (Fin 0)) net, s) \<and>
         (\<forall>x. clamp (Fin x) NegInf (Fin 0) = (if 0 < x then Fin 0 else Fin x)) \<and>
         (net = [-3, 2, -1] \<longrightarrow>
            calculate_zero_feed pv s = Inr ([Fin (-3), Fin 0, Fin (-1)], s))"
  using assms by (simp add: calculate_zero_feed_def clamp_zero_feed)

theorem zero_feed_series_witness:
  "calculate_zero_feed sample_engine
     ((init [] [] 3600000000000 :: (real list, real list) SimpleSystem)
        \<lparr>net_energy_produced := Some [-3, 2, -1]\<rparr>)
   = Inr ([Fin (-3), Fin 0, Fin (-1)],
          (init [] [] 3600000000000)\<lparr>net_energy_produced := Some [-3, 2, -1]\<rparr>)"
proof -
  let ?s = "(init [] [] 3600000000000 :: (real list, real list) SimpleSystem)
              \<lparr>net_energy_produced := Some [-3, 2, -1]\<rparr>"
  have "net_energy_produced ?s = Some [-3, 2, -1]"
    by simp
  from zero_feed_series [OF this]
  show ?thesis
    by simp
qed

text \<open>
  When the net-energy field is still \<open>None\<close>, \<open>calculate_zero_feed\<close> runs the model first;
  what it returns is then the same mapping of the series the run has stored.
\<close>

lemma zero_feed_after_run:
  assumes "calculate_zero_feed pv s = Inr (zf, s')"
  shows "\<exists>net. net_energy_produced s' = Some net \<and>
           zf = map (\<lambda>x. if 0 < x then Fin 0 else Fin x) net"
  using assms
  by (auto simp: calculate_zero_feed_def clamp_zero_feed
      split: sum.splits option.splits if_splits)

section \<open>Running the model\<close>

text \<open>What \<open>run_model\<close> stores when the weather is there, and its one failure.\<close>

lemma run_model_with_weather:
  assumes "weather s = Some w"
  shows "run_model pv s =
           Inr (s\<lparr>dc_output := Some (results_dc pv w),
                   dc_output_kw := Some (map (\<lambda>dc. dc / 1000) (results_dc pv w)),
                   ac_output := Some (results_ac pv w),
                   ac_output_kw := Some (map (\<lambda>ac. ac / 1000) (results_ac pv w)),
                   ac_production :=
                     Attr (Some (calculate_ac_production s (map (\<lambda>ac. ac / 1000) (results_ac pv w)))),
                   net_energy_produced :=
                     Some (map (\<lambda>(produced, consumed). produced - consumed)
                             (zip (calculate_ac_production s (map (\<lambda>ac. ac / 1000) (results_ac pv w)))
                                (consumption s))),
                   dirty := False\<rparr>)"
  using assms by (simp add: run_model_def Let_def)

lemma run_model_without_weather:
  "weather s = None \<Longrightarrow> run_model pv s = Inl (Exception ''the system needs weather data.'')"
  by (simp add: run_model_def)

section \<open>Net energy\<close>

text \<open>
  C6, as stated, fails: the claim has the net-energy derivation raise a length-mismatch
  error when the produced and the consumed series differ in length. With three produced
  samples and one consumed sample, \<open>run_model\<close> raises nothing and stores a net-energy
  series of one sample.
\<close>

theorem net_energy_no_length_check_counterexample:
  "length (calculate_ac_production (init [1] [0, 2, 4] 3600000000000 :: (real list, real list) SimpleSystem) [0, 2, 4]) = 3 \<and>
   length [1 :: real] = 1 \<and>
   map_sum id net_energy_produced
     (run_model sample_engine (update_weather sample_engine (init [1] [0, 2, 4] 3600000000000)))
   = Inr (Some [-1])"
  by (simp add: run_model_def update_weather_def init_def sample_engine_def
      calculate_ac_production_def upt_rec Let_def)

text \<open>
  C6, as amended: the net-energy derivation of \<open>run_model\<close> makes no length check and
  raises no length-mismatch error. Whenever the weather is there, the run succeeds and
  pairs the produced series with the consumption by \<^verbatim>\<open>zip\<close>: the net series has as
  many samples as the shorter of the two, and sample \<open>i\<close> is
  \<open>produced[i] - consumed[i]\<close>; for equal lengths this is the whole pointwise difference.
\<close>

theorem net_energy_truncates:
  assumes "weather s = Some w"
  shows "\<exists>s' produced net.
           run_model pv s = Inr s' \<and>
           ac_production s' = Attr (Some produced) \<and>
           net_energy_produced s' = Some net \<and>
           length net = min (length produced) (length (consumption s)) \<and>
           (\<forall>i<length net. net ! i = produced ! i - consumption s ! i)"
  using assms by (simp add: run_model_with_weather)

theorem net_energy_truncates_witness:
  "\<exists>s'. run_model sample_engine (update_weather sample_engine (init [1, 1] [0, 2, 4] 3600000000000)) = Inr s' \<and>
     ac_production s' = Attr (Some [0, 1, 3]) \<and> net_energy_produced s' = Some [-1, 0]"
proof -
  let ?s = "update_weather sample_engine (init [1, 1] [0, 2, 4] 3600000000000)"
  have w: "weather ?s = Some [0, 2, 4]"
    by (simp add: update_weather_def sample_engine_def init_def)
  from net_energy_truncates [OF w, of sample_engine]
  obtain s' produced net where r: "run_model sample_engine ?s = Inr s'"
    "ac_production s' = Attr (Some produced)" "net_energy_produced s' = Some net"
    "length net = min (length produced) (length (consumption ?s))"
    "\<forall>i<length net. net ! i = produced ! i - consumption ?s ! i"
    by blast
  have "run_model sample_engine ?s = Inr s' \<Longrightarrow> ac_production s' = Attr (Some [0, 1, 3])"
    by (auto simp add: run_model_def update_weather_def init_def sample_engine_def
      calculate_ac_production_def upt_rec Let_def)
  with r(1) have p: "ac_production s' = Attr (Some [0, 1, 3])" by blast
  with r(2) have produced: "produced = [0, 1, 3]" by simp
  have c: "consumption ?s = [1, 1]" by (simp add: update_weather_def init_def)
  from r(4) produced c have len: "length net = 2" by simp
  from r(5) len produced c have "net ! 0 = -1" "net ! 1 = 0"
    by simp_all
  with len have "net = [-1, 0]"
    by (auto simp: list_eq_iff_nth_eq less_Suc_eq eval_nat_numeral)
  with r(1,3) p show ?thesis by simp
qed

section \<open>The battery simulator without validation\<close>

lemma soc_kwh_no_capacity: "C \<le> 0 \<Longrightarrow> soc_kwh f C net i = 0"
  by (cases i) (auto simp: clamp_def py_max_def py_min_def)

lemma soc_kwh_no_capacity_map:
  "C \<le> 0 \<Longrightarrow> map (soc_kwh f C net) [0..<n] = replicate n 0"
  by (induction n) (simp_all add: soc_kwh_no_capacity replicate_append_same)

text \<open>
  C7, as stated, fails: the claim has the simulator raise an invalid-capacity error for
  \<open>capacity_kwh \<le> 0\<close> and an invalid-fraction error for a fraction outside \<open>[0, 1]\<close>.
  With capacity \<open>-5\<close>, and with fraction 2, \<open>calculate_battery_levels\<close> returns a
  trajectory.
\<close>

theorem battery_levels_unvalidated_counterexample:
  "calculate_battery_levels
     ((init [] [] 3600000000000 :: (real list, real list) SimpleSystem)\<lparr>net_energy_produced := Some [1, -2]\<rparr>)
     (1 / 2) (-5) = Inr [0, 0] \<and>
   calculate_battery_levels
     ((init [] [] 3600000000000 :: (real list, real list) SimpleSystem)\<lparr>net_energy_produced := Some [1, -2]\<rparr>)
     2 5 = Inr [5, 3]"
  by (simp add: calculate_battery_levels_def upt_rec clamp_def py_max_def py_min_def)

text \<open>
  C7, as amended: \<open>calculate_battery_levels\<close> checks neither argument and raises neither
  an invalid-capacity nor an invalid-fraction error. When the net-energy series has been
  computed, it returns for every \<open>capacity_kwh\<close> and every \<open>initial_soc\<close> the trajectory
  of the clamp recurrence, one level per net sample; with \<open>capacity_kwh \<le> 0\<close> every
  level is 0. Its only failure is the \<^verbatim>\<open>TypeError\<close> of iterating over \<open>None\<close> when the
  net-energy series has not been computed.
\<close>

theorem battery_levels_unvalidated:
  "(net_energy_produced s = None \<longrightarrow>
      calculate_battery_levels s initial_soc capacity_kwh = Inl (TypeError ''NoneType is not iterable'')) \<and>
   (\<forall>net. net_energy_produced s = Some net \<longrightarrow>
      (\<exists>soc. calculate_battery_levels s initial_soc capacity_kwh = Inr soc \<and>
         soc = map (soc_kwh initial_soc capacity_kwh net) [0..<length net] \<and>
         (capacity_kwh \<le> 0 \<longrightarrow> soc = replicate (length net) 0)))"
proof (intro conjI allI impI)
  assume "net_energy_produced s = None"
  then show "calculate_battery_levels s initial_soc capacity_kwh = Inl (TypeError ''NoneType is not iterable'')"
    by (simp add: calculate_battery_levels_def)
next
  fix net
  assume net: "net_energy_produced s = Some net"
  let ?soc = "map (soc_kwh initial_soc capacity_kwh net) [0..<length net]"
  have zero: "?soc = replicate (length net) 0" if "capacity_kwh \<le> 0"
    using that by (rule soc_kwh_no_capacity_map)
  show "\<exists>soc. calculate_battery_levels s initial_soc capacity_kwh = Inr soc \<and>
         soc = map (soc_kwh initial_soc capacity_kwh net) [0..<length net] \<and>
         (capacity_kwh \<le> 0 \<longrightarrow> soc = replicate (length net) 0)"
  proof (intro exI [of _ ?soc] conjI impI)
    show "calculate_battery_levels s initial_soc capacity_kwh = Inr ?soc"
      using net by (rule battery_levels_eq)
    show "?soc = ?soc" ..
    show "?soc = replicate (length net) 0" if "capacity_kwh \<le> 0"
      using that by (rule zero)
  qed
qed

theorem battery_levels_unvalidated_witness:
  "(-5 :: real) \<le> 0 \<and>
   calculate_battery_levels
     ((init [] [] 3600000000000 :: (real list, real list) SimpleSystem)\<lparr>net_energy_produced := Some [1, -2]\<rparr>)
     3 (-5) = Inr [0, 0] \<and>
   calculate_battery_levels (init [] [] 3600000000000 :: (real list, real list) SimpleSystem) 3 (-5) =
     Inl (TypeError ''NoneType is not iterable'')"
proof -
  let ?fresh = "init [] [] 3600000000000 :: (real list, real list) SimpleSystem"
  let ?s = "?fresh\<lparr>net_energy_produced := Some [1, -2]\<rparr>"
  have net: "net_energy_produced ?s = Some [1, -2]" by simp
  from battery_levels_unvalidated [of ?s 3 "-5"]
  have "\<forall>net. net_energy_produced ?s = Some net \<longrightarrow>
      (\<exists>soc. calculate_battery_levels ?s 3 (-5) = Inr soc \<and>
         soc = map (soc_kwh 3 (-5) net) [0..<length net] \<and>
         ((-5 :: real) \<le> 0 \<longrightarrow> soc = replicate (length net) 0))"
    by (rule conjunct2)
  with net obtain soc where "calculate_battery_levels ?s 3 (-5) = Inr soc"
    "(-5 :: real) \<le> 0 \<longrightarrow> soc = replicate (length [1, -2 :: real]) 0"
    by blast
  then have "calculate_battery_levels ?s 3 (-5) = Inr (replicate (length [1, -2 :: real]) 0)"
    by simp
  moreover have "net_energy_produced ?fresh = None" by (simp add: init_def)
  with battery_levels_unvalidated [of ?fresh 3 "-5"]
  have "calculate_battery_levels ?fresh 3 (-5) = Inl (TypeError ''NoneType is not iterable'')"
    by blast
  ultimately show ?thesis by (simp add: eval_nat_numeral)
qed

section \<open>The reported cost\<close>

lemma py_sum_sum_list: "py_sum xs = sum_list xs"
proof -
  have "foldl (+) a xs = a + sum_list xs" for a :: real
    by (induction xs arbitrary: a) simp_all
  then show ?thesis by (simp add: py_sum_def)
qed

text \<open>
  C9, as stated, fails: the claim has the reported total cost equal
  \<open>price_per_kwh * -1 * total_energy(series, dt)\<close> and be non-negative for every price.
  For the series \<open>[-3, 0, -1]\<close> at price 2 the script reports 8 where the trapezoidal
  formula with \<open>dt = 1\<close> gives 4, and at price \<open>-1\<close> it reports \<open>-4\<close>.
\<close>

theorem total_cost_plain_sum_counterexample:
  "total_net_cost_per_day 2 [-3, 0, -1] = 8 \<and>
   2 * -1 * total_energy [-3, 0, -1] 1 = 4 \<and>
   total_net_cost_per_day (-1) [-3, 0, -1] = -4"
  by (simp add: total_net_cost_per_day_def costs_def py_sum_def total_energy_def upt_rec)

text \<open>
  C9, as amended: for every series and every price, the reported total cost is the
  plain sum, over the samples \<open>x\<close> of the series, of \<open>price_per_kwh * -1 * x\<close>, which is
  \<open>price_per_kwh * -1\<close> times the sum of the samples (neither \<open>total_energy\<close> nor a
  time step enters); for a non-positive series and a price \<open>\<ge> 0\<close> it is non-negative.
\<close>

theorem total_cost_plain_sum:
  "total_net_cost_per_day price_per_kwh series =
     sum_list (map (\<lambda>x. price_per_kwh * -1 * x) series) \<and>
   total_net_cost_per_day price_per_kwh series = price_per_kwh * -1 * sum_list series \<and>
   ((\<forall>x\<in>set series. x \<le> 0) \<and> 0 \<le> price_per_kwh \<longrightarrow>
      0 \<le> total_net_cost_per_day price_per_kwh series)"
proof -
  have samples: "total_net_cost_per_day price_per_kwh series =
      sum_list (map (\<lambda>x. price_per_kwh * -1 * x) series)"
    by (simp only: total_net_cost_per_day_def costs_def py_sum_sum_list)
  have "sum_list (map (\<lambda>x. price_per_kwh * -1 * x) series) =
          price_per_kwh * -1 * sum_list series"
    by (induction series) (simp_all add: algebra_simps)
  with samples
  have eq: "total_net_cost_per_day price_per_kwh series = price_per_kwh * -1 * sum_list series"
    by simp
  have "0 \<le> price_per_kwh * -1 * sum_list series"
    if "\<forall>x\<in>set series. x \<le> 0" "0 \<le> price_per_kwh"
  proof -
    from that(1) have "sum_list series \<le> 0"
      by (simp add: sum_list_nonpos)
    with that(2) show ?thesis
      by (simp add: mult_nonneg_nonpos)
  qed
  with samples eq show ?thesis
    by simp
qed

theorem total_cost_plain_sum_witness:
  "(-3 :: real) \<le> 0 \<and> (0 :: real) \<le> 0 \<and> (-1 :: real) \<le> 0 \<and> (0 :: real) \<le> 2 \<and>
   total_net_cost_per_day 2 [-3, 0, -1] = 2 * -1 * (-4) \<and>
   0 \<le> total_net_cost_per_day 2 [-3, 0, -1]"
  using total_cost_plain_sum [of 2 "[-3, 0, -1]"] by simp

section \<open>The getters\<close>

text \<open>
  Without weather, the getters of the AC output, the DC output and the net energy raise
  the exception of \<open>run_model\<close>. On a new object, the getter of the AC production
  raises an \<^verbatim>\<open>AttributeError\<close> instead.
\<close>

lemma getters_without_weather:
  assumes "weather s = None"
  shows "ac_output_kw s = None \<Longrightarrow>
           get_ac_output pv s = Inl (Exception ''the system needs weather data.'')"
    and "dc_output_kw s = None \<Longrightarrow>
           get_dc_output pv s = Inl (Exception ''the system needs weather data.'')"
    and "net_energy_produced s = None \<Longrightarrow>
           get_net_energy_produced pv s = Inl (Exception ''the system needs weather data.'')"
  using assms
  by (simp_all add: get_ac_output_def get_dc_output_def get_net_energy_produced_def
      run_model_without_weather)

lemma getters_on_new_object:
  "get_ac_output pv (init c t n) = Inl (Exception ''the system needs weather data.'')"
  "get_dc_output pv (init c t n) = Inl (Exception ''the system needs weather data.'')"
  "get_net_energy_produced pv (init c t n) = Inl (Exception ''the system needs weather data.'')"
  "get_ac_production pv (init c t n) = Inl (AttributeError ''ac_production'')"
  by (simp_all add: get_ac_output_def get_dc_output_def get_net_energy_produced_def
      get_ac_production_def read_ac_production_def run_model_def init_def)

text \<open>
  C8: every getter should either return a cached value consistent with the current
  weather input or run a full recompute before returning, so that no read after a
  weather update returns a stale value. The code does otherwise in two places.
  The getter of the AC production, called on a new object whose weather has been
  supplied, raises an \<^verbatim>\<open>AttributeError\<close>: it neither recomputes nor returns a value.
  And once a derived field holds a value, its getter returns that value after the time
  index has changed and the weather has been updated, while \<open>dirty\<close> is set.
\<close>

theorem getters_ignore_update:
  "get_ac_production pv (update_weather pv (init c t n)) = Inl (AttributeError ''ac_production'') \<and>
   (\<forall>v. ac_output_kw s = Some v \<longrightarrow>
      get_ac_output pv (update_weather pv (s\<lparr>times_idx := t'\<rparr>)) =
        Inr (Some v, update_weather pv (s\<lparr>times_idx := t'\<rparr>))) \<and>
   (\<forall>v. dc_output_kw s = Some v \<longrightarrow>
      get_dc_output pv (update_weather pv (s\<lparr>times_idx := t'\<rparr>)) =
        Inr (Some v, update_weather pv (s\<lparr>times_idx := t'\<rparr>))) \<and>
   (\<forall>v. net_energy_produced s = Some v \<longrightarrow>
      get_net_energy_produced pv (update_weather pv (s\<lparr>times_idx := t'\<rparr>)) =
        Inr (Some v, update_weather pv (s\<lparr>times_idx := t'\<rparr>))) \<and>
   (\<forall>v. ac_production s = Attr (Some v) \<longrightarrow>
      get_ac_production pv (update_weather pv (s\<lparr>times_idx := t'\<rparr>)) =
        Inr (Some v, update_weather pv (s\<lparr>times_idx := t'\<rparr>))) \<and>
   dirty (update_weather pv (s\<lparr>times_idx := t'\<rparr>))"
  by (simp add: get_ac_output_def get_dc_output_def get_net_energy_produced_def
      get_ac_production_def read_ac_production_def update_weather_def init_def)

theorem getters_ignore_update_witness:
  "\<exists>s2 s3.
     get_ac_output sample_engine (update_weather sample_engine (init [1, 1] [1, 2] 3600000000000)) =
       Inr (Some [1, 2], s2) \<and>
     s3 = update_weather sample_engine (s2\<lparr>times_idx := [5, 6]\<rparr>) \<and>
     weather s3 = Some [5, 6] \<and> dirty s3 \<and>
     get_ac_output sample_engine s3 = Inr (Some [1, 2], s3) \<and>
     map_sum id ac_output_kw (run_model sample_engine s3) = Inr (Some [5, 6])"
proof -
  let ?e = sample_engine
  let ?a = "update_weather ?e (init [1, 1] [1, 2] 3600000000000)"
  have wa: "weather ?a = Some [1, 2]"
    by (simp add: update_weather_def sample_engine_def init_def)
  from run_model_with_weather [OF wa, of ?e]
  obtain b where b: "run_model ?e ?a = Inr b"
    and "ac_output_kw b = Some (map (\<lambda>ac. ac / 1000) (results_ac ?e [1, 2]))"
    by simp
  then have kw: "ac_output_kw b = Some [1, 2]"
    by (simp add: sample_engine_def)
  have "ac_output_kw ?a = None"
    by (simp add: update_weather_def init_def)
  with b kw have first: "get_ac_output ?e ?a = Inr (Some [1, 2], b)"
    by (simp add: get_ac_output_def)
  let ?c = "update_weather ?e (b\<lparr>times_idx := [5, 6]\<rparr>)"
  from getters_ignore_update [of ?e _ _ _ b "[5, 6]"] kw
  have stale: "get_ac_output ?e ?c = Inr (Some [1, 2], ?c)" and d: "dirty ?c"
    by simp_all
  have wc: "weather ?c = Some [5, 6]"
    by (simp add: update_weather_def sample_engine_def)
  have fresh: "map_sum id ac_output_kw (run_model ?e ?c) = Inr (Some [5, 6])"
    by (simp add: run_model_with_weather [OF wc]) (simp add: sample_engine_def)
  from first stale d wc fresh show ?thesis
    by blast
qed

end
